theory Spec2Isabelle
  imports Main "HOL-Library.Sublist" "HOL-Library.AList"
begin

section \<open>Python strings\<close>

text \<open>
  A Python \<open>str\<close> is a sequence of Unicode code points, so it is modelled as a list of
  natural numbers rather than as a list of 8-bit characters: the pages contain text such
  as \<open>m\<^sup>2\<close> and the euro sign. \<open>lit\<close> turns an ASCII literal into such a string.
\<close>

type_synonym str = "nat list"

definition lit :: "string \<Rightarrow> str" where
  "lit s = map of_char s"

text \<open>
  \<open>str.strip()\<close> without argument removes leading and trailing white space, that is the
  code points for which \<open>str.isspace\<close> holds.
\<close>

definition isspace :: "nat \<Rightarrow> bool" where
  "isspace c \<longleftrightarrow>
     (9 \<le> c \<and> c \<le> 13) \<or> (28 \<le> c \<and> c \<le> 32) \<or> c = 133 \<or> c = 160 \<or> c = 5760 \<or>
     (8192 \<le> c \<and> c \<le> 8202) \<or> c = 8232 \<or> c = 8233 \<or> c = 8239 \<or> c = 8287 \<or> c = 12288"

definition lstrip :: "str \<Rightarrow> str" where
  "lstrip s = dropWhile isspace s"

definition rstrip :: "str \<Rightarrow> str" where
  "rstrip s = rev (dropWhile isspace (rev s))"

definition strip :: "str \<Rightarrow> str" where
  "strip s = lstrip (rstrip s)"

text \<open>\<open>s.startswith(p)\<close> and \<open>p in s\<close> (substring test).\<close>

definition startswith :: "str \<Rightarrow> str \<Rightarrow> bool" where
  "startswith s p = prefix p s"

definition contains :: "str \<Rightarrow> str \<Rightarrow> bool" where
  "contains s p = sublist p s"

text \<open>
  \<open>s.split(sep)\<close> for a one-character separator: the pieces between the occurrences of
  \<open>sep\<close>; the result always has at least one element.
\<close>

fun split :: "nat \<Rightarrow> str \<Rightarrow> str list" where
  "split sep [] = [[]]"
| "split sep (c # cs) =
     (if c = sep then [] # split sep cs
      else (case split sep cs of w # ws \<Rightarrow> (c # w) # ws | [] \<Rightarrow> [[c]]))"

text \<open>\<open>str(n)\<close> for a non-negative integer: its decimal digits.\<close>

fun str_of_nat :: "nat \<Rightarrow> str" where
  "str_of_nat n = (if n < 10 then [48 + n] else str_of_nat (n div 10) @ [48 + n mod 10])"

declare str_of_nat.simps [simp del]

section \<open>The parsed document\<close>

text \<open>
  BeautifulSoup turns the response body into a tree. A \<open>Tag\<close> has a name, attributes and
  contents; the contents are tags and strings. Of the attributes the program inspects,
  \<open>class\<close> is the one that the library stores as a list of tokens; it is kept in a field of
  its own, and all other attributes have plain string values. Strings that \<open>.text\<close> skips
  (comments, declarations, script and style contents) are \<open>Comment\<close> nodes.
\<close>

datatype tag = Tag (name: str) (classes: "str list") (attrs: "(str \<times> str) list") (contents: "node list")
and node = Element tag | NavigableString str | Comment str

text \<open>All tags below a tag, in document order (the order in which \<open>find_all\<close> visits them).\<close>

fun descendants :: "tag \<Rightarrow> tag list" and node_descendants :: "node \<Rightarrow> tag list" where
  "descendants (Tag n cl at cs) = concat (map node_descendants cs)"
| "node_descendants (Element t) = t # descendants t"
| "node_descendants (NavigableString s) = []"
| "node_descendants (Comment s) = []"

text \<open>\<open>tag.text\<close>: the strings below the tag, concatenated.\<close>

fun get_text :: "tag \<Rightarrow> str" and node_text :: "node \<Rightarrow> str" where
  "get_text (Tag n cl at cs) = concat (map node_text cs)"
| "node_text (Element t) = get_text t"
| "node_text (NavigableString s) = s"
| "node_text (Comment s) = []"

text \<open>
  \<open>tag.find_all(...)\<close> returns the descendants that match, \<open>tag.find(...)\<close> the first of
  them or \<open>None\<close>.
\<close>

definition find_all :: "(tag \<Rightarrow> bool) \<Rightarrow> tag \<Rightarrow> tag list" where
  "find_all p t = filter p (descendants t)"

definition find :: "(tag \<Rightarrow> bool) \<Rightarrow> tag \<Rightarrow> tag option" where
  "find p t = (case find_all p t of [] \<Rightarrow> None | x # _ \<Rightarrow> Some x)"

text \<open>
  The search criteria. A \<open>class_\<close> string matches a tag when it equals one of the class
  tokens, or the tokens joined by single spaces. An \<open>attrs\<close> entry matches when the
  attribute has that value, and \<open>href=True\<close> when the attribute is present.
\<close>

fun join :: "str \<Rightarrow> str list \<Rightarrow> str" where
  "join sep [] = []"
| "join sep [w] = w"
| "join sep (w # ws) = w @ sep @ join sep ws"

definition by_name :: "string \<Rightarrow> tag \<Rightarrow> bool" where
  "by_name n t \<longleftrightarrow> name t = lit n"

definition by_class :: "string \<Rightarrow> string \<Rightarrow> tag \<Rightarrow> bool" where
  "by_class n c t \<longleftrightarrow>
     name t = lit n \<and> (lit c \<in> set (classes t) \<or> join (lit '' '') (classes t) = lit c)"

definition by_attr :: "string \<Rightarrow> string \<Rightarrow> string \<Rightarrow> tag \<Rightarrow> bool" where
  "by_attr n k v t \<longleftrightarrow> name t = lit n \<and> map_of (attrs t) (lit k) = Some (lit v)"

definition has_attr :: "string \<Rightarrow> string \<Rightarrow> tag \<Rightarrow> bool" where
  "has_attr n k t \<longleftrightarrow> name t = lit n \<and> map_of (attrs t) (lit k) \<noteq> None"

section \<open>The network and the libraries\<close>

text \<open>
  The exceptions the program can meet. \<open>ConnectionError\<close>, \<open>Timeout\<close> and \<open>HTTPError\<close>
  are subclasses of \<open>requests.exceptions.RequestException\<close>; the others are caught by
  \<open>except Exception\<close> only. The two handlers of each function differ in the printed message
  only.
\<close>

datatype exn = ConnectionError | Timeout | HTTPError nat | KeyError | ValueError | IOError
  | UnicodeEncodeError | OtherException

fun is_RequestException :: "exn \<Rightarrow> bool" where
  "is_RequestException ConnectionError = True"
| "is_RequestException Timeout = True"
| "is_RequestException (HTTPError status) = True"
| "is_RequestException e = False"

record response =
  status_code :: nat
  response_text :: str

text \<open>
  \<open>response.raise_for_status()\<close> of the requests library raises \<open>HTTPError\<close> for the
  client-error and server-error statuses, \<open>400 \<le> status_code < 600\<close>, and returns
  normally for every other status.
\<close>

definition raise_for_status :: "response \<Rightarrow> exn + unit" where
  "raise_for_status r =
     (if 400 \<le> status_code r \<and> status_code r < 600 then Inl (HTTPError (status_code r))
      else Inr ())"

text \<open>
  What the program calls and does not define is a parameter: \<open>get\<close> is
  \<open>requests.get(url, timeout=10, headers=...)\<close> (the answer of the network, or the exception
  raised), \<open>html_parser\<close> is \<open>BeautifulSoup(text, "html.parser")\<close>, \<open>urljoin\<close> is
  \<open>urllib.parse.urljoin\<close>, and \<open>open_file\<close> is opening a file for writing (\<open>None\<close> when
  it succeeds). \<open>print_out\<close> is \<open>print\<close> of one line on the console: \<open>None\<close>, or the
  exception it raises when the console cannot take the line (\<open>UnicodeEncodeError\<close> for a
  code point outside its encoding). \<open>write_row\<close> is the write of one row to the open
  file, given the rows written before: \<open>None\<close>, or the exception it raises
  (\<open>UnicodeEncodeError\<close> for a cell, an error of the device); the row is then not written.

  The URL that a function is called with is taken to be printable, as the page URLs of the
  driver are; so the lines that show this URL and text of the program only (the count of
  anchors, the line that announces a fetch, the lines of the handlers) are printed, and
  the lines that show text of a page are the ones that can raise. (A link whose line
  raised in \<open>crawl\<close> is not printable; when the driver passes it on, the script ends with
  the exception, which is outside the model.) In
  \<open>extract_apartment_details\<close> these are the lines of the summary at the end of the \<open>try\<close>
  block, when every field is set: an exception there is caught and the record is returned
  as it is, so they are left out. In \<open>crawl\<close> it is the line for a new link, inside the
  loop.
\<close>

record env =
  get :: "str \<Rightarrow> exn + response"
  html_parser :: "str \<Rightarrow> exn + tag"
  urljoin :: "str \<Rightarrow> str \<Rightarrow> str"
  open_file :: "str \<Rightarrow> exn option"
  print_out :: "str \<Rightarrow> exn option"
  write_row :: "str list list \<Rightarrow> str list \<Rightarrow> exn option"

section \<open>crawler.py: crawl\<close>

text \<open>
  The \<open>for\<close> loop over the anchors. \<open>apartment_links\<close> is mutated in place, so the loop
  returns it together with the exception that stopped it, if any. A new link is appended
  first and printed next: when the \<open>print\<close> raises, the loop ends with the link in the list.
\<close>

fun crawl_loop :: "env \<Rightarrow> str \<Rightarrow> tag list \<Rightarrow> str list \<Rightarrow> exn option \<times> str list" where
  "crawl_loop env url [] apartment_links = (None, apartment_links)"
| "crawl_loop env url (link # listing_links) apartment_links =
     (case map_of (attrs link) (lit ''href'') of
        None \<Rightarrow> (Some KeyError, apartment_links)
      | Some href \<Rightarrow>
          if startswith href (lit ''/en/furnished-apartment/'') then
            (let full_url = urljoin env url href in
             if full_url \<notin> set apartment_links
             then (case print_out env (lit ''Found listing: '' @ full_url) of
                     Some e \<Rightarrow> (Some e, apartment_links @ [full_url])
                   | None \<Rightarrow> crawl_loop env url listing_links (apartment_links @ [full_url]))
             else crawl_loop env url listing_links apartment_links)
          else crawl_loop env url listing_links apartment_links)"

text \<open>The \<open>try\<close> block: the exception it raised, if any, and the list as it was left.\<close>

definition crawl_try :: "env \<Rightarrow> str \<Rightarrow> str list \<Rightarrow> exn option \<times> str list" where
  "crawl_try env url apartment_links =
     (case get env url of
        Inl e \<Rightarrow> (Some e, apartment_links)
      | Inr response \<Rightarrow>
          (case raise_for_status response of
             Inl e \<Rightarrow> (Some e, apartment_links)
           | Inr _ \<Rightarrow>
               (case html_parser env (response_text response) of
                  Inl e \<Rightarrow> (Some e, apartment_links)
                | Inr soup \<Rightarrow>
                    crawl_loop env url (find_all (has_attr ''a'' ''href'') soup) apartment_links)))"

text \<open>Both handlers print and fall through to \<open>return apartment_links\<close>.\<close>

definition crawl :: "env \<Rightarrow> str \<Rightarrow> str list" where
  "crawl env url =
     (case crawl_try env url [] of
        (Some e, apartment_links) \<Rightarrow> if is_RequestException e then apartment_links else apartment_links
      | (None, apartment_links) \<Rightarrow> apartment_links)"

section \<open>crawler.py: extract_apartment_details\<close>

text \<open>
  The record is a Python dict, which keeps its keys in insertion order: an association
  list. \<open>details[k] = v\<close> is \<open>AList.update k v\<close>, which replaces the value of an existing
  key in place and appends a new key at the end.
\<close>

type_synonym details = "(str \<times> str) list"

definition extract_title :: "tag \<Rightarrow> details \<Rightarrow> details" where
  "extract_title soup details =
     (case find (by_class ''h2'' ''ListingDetails-title'') soup of
        Some title_tag \<Rightarrow> AList.update (lit ''title'') (strip (get_text title_tag)) details
      | None \<Rightarrow> details)"

definition extract_address :: "tag \<Rightarrow> details \<Rightarrow> details" where
  "extract_address soup details =
     (case find (by_attr ''span'' ''data-testid'' ''ListingDetailsPage-address'') soup of
        Some address_tag \<Rightarrow> AList.update (lit ''address'') (strip (get_text address_tag)) details
      | None \<Rightarrow>
          (case find (by_class ''div'' ''ListingDetails-basic'') soup of
             Some basic_div \<Rightarrow>
               (case find (by_name ''span'') basic_div of
                  Some span \<Rightarrow>
                    AList.update (lit ''address'') (strip (get_text span) @ lit '' (fallback)'')
                      details
                | None \<Rightarrow> details)
           | None \<Rightarrow> details))"

definition extract_size :: "tag \<Rightarrow> details \<Rightarrow> details" where
  "extract_size stats_container details =
     (case find (by_class ''span'' ''ListingDetails-statsElt floor'') stats_container of
        Some size_span \<Rightarrow>
          (case find (by_name ''span'') size_span of
             Some inner \<Rightarrow>
               (case split 44 (strip (get_text inner)) of
                  part # _ \<Rightarrow> AList.update (lit ''size'') (strip part) details
                | [] \<Rightarrow> details)
           | None \<Rightarrow> details)
      | None \<Rightarrow> details)"

definition extract_rooms :: "tag \<Rightarrow> details \<Rightarrow> details" where
  "extract_rooms stats_container details =
     (case find (by_class ''span'' ''ListingDetails-statsElt rooms'') stats_container of
        Some rooms_span \<Rightarrow>
          (case find (by_name ''span'') rooms_span of
             Some inner \<Rightarrow> AList.update (lit ''rooms'') (strip (get_text inner)) details
           | None \<Rightarrow> details)
      | None \<Rightarrow> details)"

definition extract_stats :: "tag \<Rightarrow> details \<Rightarrow> details" where
  "extract_stats soup details =
     (case find (by_class ''div'' ''ListingDetails-stats'') soup of
        Some stats_container \<Rightarrow> extract_rooms stats_container (extract_size stats_container details)
      | None \<Rightarrow> details)"

definition extract_price :: "tag \<Rightarrow> details \<Rightarrow> details" where
  "extract_price soup details =
     (case find (by_class ''div'' ''ListingPriceText__wrapper'') soup of
        Some price_wrapper \<Rightarrow>
          (let price_value_tag = find (by_class ''strong'' ''ListingPriceText__value'') price_wrapper;
               price_unit_tag = find (by_name ''span'') price_wrapper
           in case price_value_tag of
                None \<Rightarrow> details
              | Some value_tag \<Rightarrow>
                  (case price_unit_tag of
                     None \<Rightarrow> AList.update (lit ''price'') (strip (get_text value_tag)) details
                   | Some unit_tag \<Rightarrow>
                       if contains (get_text unit_tag) (lit ''per month'')
                       then AList.update (lit ''price'')
                              (strip (get_text value_tag) @ lit '' '' @ strip (get_text unit_tag))
                              details
                       else AList.update (lit ''price'') (strip (get_text value_tag)) details))
      | None \<Rightarrow> details)"

definition extract_description :: "tag \<Rightarrow> details \<Rightarrow> details" where
  "extract_description soup details =
     (case find (by_class ''div'' ''description'') soup of
        Some desc_tag \<Rightarrow> AList.update (lit ''description'') (strip (get_text desc_tag)) details
      | None \<Rightarrow>
          AList.update (lit ''description'')
            (lit ''Description section not found (using generic selector)'') details)"

text \<open>The \<open>try\<close> block: the exception it raised, if any, and the dict as it was left.\<close>

definition extract_try :: "env \<Rightarrow> str \<Rightarrow> details \<Rightarrow> exn option \<times> details" where
  "extract_try env url details =
     (case get env url of
        Inl e \<Rightarrow> (Some e, details)
      | Inr response \<Rightarrow>
          (case raise_for_status response of
             Inl e \<Rightarrow> (Some e, details)
           | Inr _ \<Rightarrow>
               (case html_parser env (response_text response) of
                  Inl e \<Rightarrow> (Some e, details)
                | Inr soup \<Rightarrow>
                    (None,
                     extract_description soup
                       (extract_price soup
                         (extract_stats soup
                           (extract_address soup
                             (extract_title soup details))))))))"

text \<open>The dict literal that initialises \<open>details\<close>.\<close>

definition initial_details :: "str \<Rightarrow> details" where
  "initial_details url =
     [(lit ''url'', url),
      (lit ''title'', lit ''Not Found''),
      (lit ''price'', lit ''Not Found''),
      (lit ''size'', lit ''Not Found''),
      (lit ''rooms'', lit ''Not Found''),
      (lit ''address'', lit ''Not Found''),
      (lit ''description'', lit ''Not Found''),
      (lit ''availability'', lit ''Not implemented'')]"

text \<open>Both handlers print and fall through to \<open>return details\<close>.\<close>

definition extract_apartment_details :: "env \<Rightarrow> str \<Rightarrow> details" where
  "extract_apartment_details env url =
     (case extract_try env url (initial_details url) of
        (Some e, details) \<Rightarrow> if is_RequestException e then details else details
      | (None, details) \<Rightarrow> details)"

section \<open>main.py\<close>

definition page_url :: "nat \<Rightarrow> str" where
  "page_url page_num =
     lit ''https://wunderflats.com/en/furnished-apartments/berlin/'' @ str_of_nat page_num @
     lit (''?from=2025-07-01&to=2025-09-30&flexibleDays=14&scoreVariant=B'' @
          ''&minRooms=3&homeType=ENTIRE_APARTMENT&minSize=60'')"

text \<open>The \<open>for\<close> loop over the links of one page; a dict is true when it is not empty.\<close>

fun for_links :: "env \<Rightarrow> str list \<Rightarrow> details list \<Rightarrow> details list" where
  "for_links env [] all_apartment_details = all_apartment_details"
| "for_links env (link # apartment_links) all_apartment_details =
     (let details = extract_apartment_details env link in
      if details \<noteq> []
      then for_links env apartment_links (all_apartment_details @ [details])
      else for_links env apartment_links all_apartment_details)"

text \<open>
  The \<open>while True\<close> loop. It may run forever, so its result is an option: the page counter
  and the accumulator at the \<open>break\<close>, or \<open>None\<close> when the loop does not end.
\<close>

partial_function (option) page_loop :: "env \<Rightarrow> nat \<Rightarrow> details list \<Rightarrow> (nat \<times> details list) option" where
  "page_loop env page_number all_apartment_details =
     (let apartment_links = crawl env (page_url page_number) in
      if apartment_links = [] then Some (page_number, all_apartment_details)
      else page_loop env (page_number + 1)
             (for_links env apartment_links all_apartment_details))"







text \<open>The column names of the output.\<close>

definition field_names :: "str list" where
  "field_names = map lit [''url'', ''title'', ''price'', ''size'', ''rooms'', ''address'',
     ''description'', ''availability'']"

section \<open>Notions used in the statements\<close>

text \<open>
  The \<open>href\<close> values of the anchors of a page that carry one, in document order, and the
  absolute URLs of those that point to a listing.
\<close>

definition hrefs :: "tag \<Rightarrow> str list" where
  "hrefs soup =
     List.map_filter (\<lambda>link. map_of (attrs link) (lit ''href''))
       (find_all (has_attr ''a'' ''href'') soup)"

definition listing_urls :: "env \<Rightarrow> str \<Rightarrow> tag \<Rightarrow> str list" where
  "listing_urls env url soup =
     map (urljoin env url)
       (filter (\<lambda>href. startswith href (lit ''/en/furnished-apartment/'')) (hrefs soup))"

text \<open>
  The URLs that the loop of \<open>crawl\<close> gets to: those up to and including the first one whose
  line is not printed.
\<close>

fun reached :: "env \<Rightarrow> str list \<Rightarrow> str list" where
  "reached env [] = []"
| "reached env (u # us) =
     (if print_out env (lit ''Found listing: '' @ u) = None then u # reached env us else [u])"

text \<open>The position of the first occurrence of \<open>x\<close> in \<open>xs\<close> (\<open>xs.index(x)\<close>).\<close>

definition index_of :: "'a list \<Rightarrow> 'a \<Rightarrow> nat" where
  "index_of xs x = length (takeWhile (\<lambda>y. y \<noteq> x) xs)"

text \<open>Appending the elements of a list that are not yet there, one by one.\<close>

fun add_new :: "'a list \<Rightarrow> 'a list \<Rightarrow> 'a list" where
  "add_new acc [] = acc"
| "add_new acc (x # xs) = (if x \<in> set acc then add_new acc xs else add_new (acc @ [x]) xs)"

definition seen_key :: "'a list \<Rightarrow> 'a list \<Rightarrow> 'a \<Rightarrow> nat" where
  "seen_key acc xs w = (if w \<in> set acc then index_of acc w else length acc + index_of xs w)"


section \<open>Sample pages and sites\<close>

definition document :: "node list \<Rightarrow> tag" where
  "document cs = Tag (lit ''[document]'') [] [] cs"

definition listing_a :: str where
  "listing_a = lit ''https://wunderflats.com/en/furnished-apartment/a''"

definition listing_b :: str where
  "listing_b = lit ''https://wunderflats.com/en/furnished-apartment/b''"

text \<open>A listing page with every pattern; \<open>178\<close> is the superscript two, \<open>8364\<close> the euro sign.\<close>

definition title_tag :: tag where
  "title_tag = Tag (lit ''h2'') [lit ''ListingDetails-title''] []
     [NavigableString (lit ''  Sunny flat in Kreuzberg '')]"

definition address_tag :: tag where
  "address_tag = Tag (lit ''span'') [] [(lit ''data-testid'', lit ''ListingDetailsPage-address'')]
     [NavigableString (lit ''Berlin'')]"

definition size_inner :: tag where
  "size_inner = Tag (lit ''span'') [] [] [NavigableString (lit '' 98 m'' @ [178] @ lit '', floor 2 '')]"

definition size_span :: tag where
  "size_span = Tag (lit ''span'') [lit ''ListingDetails-statsElt'', lit ''floor''] []
     [Element size_inner]"

definition rooms_inner :: tag where
  "rooms_inner = Tag (lit ''span'') [] [] [NavigableString (lit ''3 rooms'')]"

definition rooms_span :: tag where
  "rooms_span = Tag (lit ''span'') [lit ''ListingDetails-statsElt'', lit ''rooms''] []
     [Element rooms_inner]"

definition stats_container :: tag where
  "stats_container = Tag (lit ''div'') [lit ''ListingDetails-stats''] []
     [Element size_span, Element rooms_span]"

definition price_value_tag :: tag where
  "price_value_tag = Tag (lit ''strong'') [lit ''ListingPriceText__value''] []
     [NavigableString (lit '' 1.200 '' @ [8364] @ lit '' '')]"

definition price_unit_tag :: tag where
  "price_unit_tag = Tag (lit ''span'') [] [] [NavigableString (lit '' per month '')]"

definition price_wrapper :: tag where
  "price_wrapper = Tag (lit ''div'') [lit ''ListingPriceText__wrapper''] []
     [Element price_value_tag, Element price_unit_tag]"

definition desc_tag :: tag where
  "desc_tag = Tag (lit ''div'') [lit ''description''] [] [NavigableString (lit ''Bright rooms.'')]"

definition listing_page :: tag where
  "listing_page = document
     [Element title_tag, Element address_tag, Element stats_container, Element price_wrapper,
      Element desc_tag]"

text \<open>A price block in which a span without the marker precedes the span with it.\<close>

definition from_span :: tag where
  "from_span = Tag (lit ''span'') [] [] [NavigableString (lit ''from'')]"

definition two_span_wrapper :: tag where
  "two_span_wrapper = Tag (lit ''div'') [lit ''ListingPriceText__wrapper''] []
     [Element price_value_tag, Element from_span, Element price_unit_tag]"

definition two_span_page :: tag where
  "two_span_page = document [Element two_span_wrapper]"

text \<open>A page with none of the patterns.\<close>

definition plain_page :: tag where
  "plain_page = document [Element (Tag (lit ''p'') [] [] [NavigableString (lit ''Hello'')])]"

text \<open>
  A result page: two listings, one of them linked twice, a link to another part of the
  site and an anchor without \<open>href\<close>.
\<close>

definition results_page :: tag where
  "results_page = document
     [Element (Tag (lit ''div'') [] []
        [Element (Tag (lit ''a'') [] [(lit ''href'', lit ''/en/furnished-apartment/a'')]
           [NavigableString (lit ''A'')]),
         Element (Tag (lit ''a'') [] [(lit ''href'', lit ''/en/about'')] [])]),
      Element (Tag (lit ''a'') [] [(lit ''href'', lit ''/en/furnished-apartment/b'')] []),
      Element (Tag (lit ''a'') [] [(lit ''href'', lit ''/en/furnished-apartment/a'')] []),
      Element (Tag (lit ''a'') [] [] [])]"

text \<open>
  A result page whose first listing link has a lone surrogate (\<open>56320\<close>) in its \<open>href\<close>,
  followed by two links to listing \<open>a\<close>.
\<close>

definition listing_s :: str where
  "listing_s = lit ''https://wunderflats.com/en/furnished-apartment/'' @ [56320]"

definition surrogate_page :: tag where
  "surrogate_page = document
     [Element (Tag (lit ''a'') [] [(lit ''href'', lit ''/en/furnished-apartment/'' @ [56320])] []),
      Element (Tag (lit ''a'') [] [(lit ''href'', lit ''/en/furnished-apartment/a'')] []),
      Element (Tag (lit ''a'') [] [(lit ''href'', lit ''/en/furnished-apartment/a'')] [])]"

text \<open>
  A console and a file in UTF-8: text with a surrogate code point (\<open>55296\<close> to \<open>57343\<close>)
  cannot be encoded.
\<close>

definition has_surrogate :: "str \<Rightarrow> bool" where
  "has_surrogate s = list_ex (\<lambda>c. 55296 \<le> c \<and> c \<le> 57343) s"

definition utf8_console :: "str \<Rightarrow> exn option" where
  "utf8_console line = (if has_surrogate line then Some UnicodeEncodeError else None)"

definition utf8_file :: "str list list \<Rightarrow> str list \<Rightarrow> exn option" where
  "utf8_file csvfile r = (if list_ex has_surrogate r then Some UnicodeEncodeError else None)"

text \<open>A site that answers every request with the same status and the same page.\<close>

definition answering :: "nat \<Rightarrow> tag \<Rightarrow> env" where
  "answering status page =
     \<lparr>get = (\<lambda>url. Inr \<lparr>status_code = status, response_text = []\<rparr>),
      html_parser = (\<lambda>text. Inr page),
      urljoin = (\<lambda>base href. lit ''https://wunderflats.com'' @ href),
      open_file = (\<lambda>filename. None),
      print_out = utf8_console,
      write_row = utf8_file\<rparr>"

text \<open>A site on which every request times out.\<close>

definition timing_out :: env where
  "timing_out =
     \<lparr>get = (\<lambda>url. Inl Timeout),
      html_parser = (\<lambda>text. Inr (document [])),
      urljoin = (\<lambda>base href. lit ''https://wunderflats.com'' @ href),
      open_file = (\<lambda>filename. None),
      print_out = utf8_console,
      write_row = utf8_file\<rparr>"

text \<open>
  A site with two result pages that show the same listings and an empty third one; listing
  \<open>a\<close> is served, the request for listing \<open>b\<close> times out.
\<close>

definition site :: env where
  "site =
     \<lparr>get = (\<lambda>url.
        if url = page_url 1 \<or> url = page_url 2
        then Inr \<lparr>status_code = 200, response_text = lit ''results''\<rparr>
        else if url = listing_a then Inr \<lparr>status_code = 200, response_text = lit ''listing''\<rparr>
        else if url = listing_b then Inl Timeout
        else Inr \<lparr>status_code = 200, response_text = []\<rparr>),
      html_parser = (\<lambda>text.
        if text = lit ''results'' then Inr results_page
        else if text = lit ''listing'' then Inr listing_page
        else Inr (document [])),
      urljoin = (\<lambda>base href. lit ''https://wunderflats.com'' @ href),
      open_file = (\<lambda>filename. None),
      print_out = utf8_console,
      write_row = utf8_file\<rparr>"



text \<open>The records of the two listings on the sample site.\<close>

definition record_a :: details where
  "record_a =
     [(lit ''url'', listing_a),
      (lit ''title'', lit ''Sunny flat in Kreuzberg''),
      (lit ''price'', lit ''1.200 '' @ [8364] @ lit '' per month''),
      (lit ''size'', lit ''98 m'' @ [178]),
      (lit ''rooms'', lit ''3 rooms''),
      (lit ''address'', lit ''Berlin''),
      (lit ''description'', lit ''Bright rooms.''),
      (lit ''availability'', lit ''Not implemented'')]"

definition record_b :: details where
  "record_b =
     [(lit ''url'', listing_b),
      (lit ''title'', lit ''Not Found''),
      (lit ''price'', lit ''Not Found''),
      (lit ''size'', lit ''Not Found''),
      (lit ''rooms'', lit ''Not Found''),
      (lit ''address'', lit ''Not Found''),
      (lit ''description'', lit ''Not Found''),
      (lit ''availability'', lit ''Not implemented'')]"

section \<open>Strings\<close>

lemma lit_eq_iff: "lit a = lit b \<longleftrightarrow> a = b"
  by (simp add: lit_def inj_map_eq_map inj_of_char)

lemma lit_append: "lit (a @ b) = lit a @ lit b"
  by (simp add: lit_def)

lemma split_not_Nil: "split sep s \<noteq> []"
  by (induction s) (auto split: list.splits)

lemma split_first: "split sep s = p # ps \<Longrightarrow> p = takeWhile (\<lambda>c. c \<noteq> sep) s"
  by (induction s arbitrary: p ps) (auto simp: split_not_Nil split: list.splits if_splits)

lemma keys_update_fixed:
  "map fst d = ks \<Longrightarrow> k \<in> set ks \<Longrightarrow> map fst (AList.update k v d) = ks"
  by (auto simp: update_keys)

lemma keys_extract_title:
  "map fst d = ks \<Longrightarrow> lit ''title'' \<in> set ks \<Longrightarrow> map fst (extract_title soup d) = ks"
  by (simp add: extract_title_def keys_update_fixed split: option.splits)

lemma keys_extract_address:
  "map fst d = ks \<Longrightarrow> lit ''address'' \<in> set ks \<Longrightarrow> map fst (extract_address soup d) = ks"
  by (simp add: extract_address_def keys_update_fixed split: option.splits)

lemma keys_extract_size:
  "map fst d = ks \<Longrightarrow> lit ''size'' \<in> set ks \<Longrightarrow> map fst (extract_size sc d) = ks"
  by (simp add: extract_size_def keys_update_fixed split: option.splits list.splits)

lemma keys_extract_rooms:
  "map fst d = ks \<Longrightarrow> lit ''rooms'' \<in> set ks \<Longrightarrow> map fst (extract_rooms sc d) = ks"
  by (simp add: extract_rooms_def keys_update_fixed split: option.splits)

lemma keys_extract_stats:
  "map fst d = ks \<Longrightarrow> lit ''size'' \<in> set ks \<Longrightarrow> lit ''rooms'' \<in> set ks \<Longrightarrow>
   map fst (extract_stats soup d) = ks"
  by (simp add: extract_stats_def keys_extract_size keys_extract_rooms split: option.splits)

lemma keys_extract_price:
  "map fst d = ks \<Longrightarrow> lit ''price'' \<in> set ks \<Longrightarrow> map fst (extract_price soup d) = ks"
  by (simp add: extract_price_def keys_update_fixed Let_def split: option.splits)

lemma keys_extract_description:
  "map fst d = ks \<Longrightarrow> lit ''description'' \<in> set ks \<Longrightarrow>
   map fst (extract_description soup d) = ks"
  by (simp add: extract_description_def keys_update_fixed split: option.splits)

lemma map_of_extract_title:
  "k \<noteq> lit ''title'' \<Longrightarrow> map_of (extract_title soup d) k = map_of d k"
  by (simp add: extract_title_def update_conv' split: option.splits)

lemma map_of_extract_address:
  "k \<noteq> lit ''address'' \<Longrightarrow> map_of (extract_address soup d) k = map_of d k"
  by (simp add: extract_address_def update_conv' split: option.splits)

lemma map_of_extract_size:
  "k \<noteq> lit ''size'' \<Longrightarrow> map_of (extract_size sc d) k = map_of d k"
  by (simp add: extract_size_def update_conv' split: option.splits list.splits)

lemma map_of_extract_rooms:
  "k \<noteq> lit ''rooms'' \<Longrightarrow> map_of (extract_rooms sc d) k = map_of d k"
  by (simp add: extract_rooms_def update_conv' split: option.splits)

lemma map_of_extract_stats:
  "k \<noteq> lit ''size'' \<Longrightarrow> k \<noteq> lit ''rooms'' \<Longrightarrow> map_of (extract_stats soup d) k = map_of d k"
  by (simp add: extract_stats_def map_of_extract_size map_of_extract_rooms split: option.splits)

lemma map_of_extract_price:
  "k \<noteq> lit ''price'' \<Longrightarrow> map_of (extract_price soup d) k = map_of d k"
  by (simp add: extract_price_def update_conv' Let_def split: option.splits)

lemma map_of_extract_description:
  "k \<noteq> lit ''description'' \<Longrightarrow> map_of (extract_description soup d) k = map_of d k"
  by (simp add: extract_description_def update_conv' split: option.splits)

lemma rstrip_Cons_keep: "\<not> isspace y \<Longrightarrow> rstrip (xs @ y # ys) = xs @ y # rstrip ys"
  by (simp add: rstrip_def dropWhile_append3)

lemma rstrip_all_space: "\<forall>c\<in>set s. isspace c \<Longrightarrow> rstrip s = []"
  by (simp add: rstrip_def)

lemma lstrip_all_space: "\<forall>c\<in>set s. isspace c \<Longrightarrow> lstrip s = []"
  by (simp add: lstrip_def)

lemma lstrip_append_keep:
  "\<forall>c\<in>set xs. isspace c \<Longrightarrow> \<not> isspace y \<Longrightarrow> lstrip (xs @ y # ys) = y # ys"
  by (simp add: lstrip_def dropWhile_append3)

lemma strip_commute: "rstrip (lstrip s) = lstrip (rstrip s)"
proof (cases "\<forall>c\<in>set s. isspace c")
  case True
  then show ?thesis by (simp add: rstrip_all_space lstrip_all_space)
next
  case False
  then obtain xs y ys where s: "s = xs @ y # ys" and xs: "\<forall>c\<in>set xs. isspace c" and y: "\<not> isspace y"
    using split_list_first_prop [of s "\<lambda>c. \<not> isspace c"] by auto
  have "lstrip s = y # ys"
    unfolding s using xs y by (rule lstrip_append_keep)
  then have "rstrip (lstrip s) = y # rstrip ys"
    using rstrip_Cons_keep [OF y, of "[]" ys] by simp
  moreover have "rstrip s = xs @ y # rstrip ys"
    unfolding s using y by (rule rstrip_Cons_keep)
  then have "lstrip (rstrip s) = y # rstrip ys"
    using lstrip_append_keep [OF xs y] by simp
  ultimately show ?thesis by simp
qed

lemma set_rstrip: "set (rstrip s) \<subseteq> set s"
  unfolding rstrip_def using set_dropWhileD by fastforce

lemma rstrip_idem: "rstrip (rstrip s) = rstrip s"
  by (simp add: rstrip_def dropWhile_idem)

lemma lstrip_idem: "lstrip (lstrip s) = lstrip s"
  by (simp add: lstrip_def dropWhile_idem)

lemma takeWhile_lstrip:
  "\<not> isspace sep \<Longrightarrow>
   takeWhile (\<lambda>c. c \<noteq> sep) (lstrip s) = lstrip (takeWhile (\<lambda>c. c \<noteq> sep) s)"
  unfolding lstrip_def by (induction s) auto

lemma rstrip_takeWhile_rstrip:
  assumes "\<not> isspace sep"
  shows "rstrip (takeWhile (\<lambda>c. c \<noteq> sep) (rstrip s)) = rstrip (takeWhile (\<lambda>c. c \<noteq> sep) s)"
proof (cases "sep \<in> set s")
  case True
  then obtain xs ys where s: "s = xs @ sep # ys" and xs: "sep \<notin> set xs"
    by (meson split_list_first)
  have "takeWhile (\<lambda>c. c \<noteq> sep) (xs @ sep # zs) = xs" for zs
    using xs by (induction xs) auto
  then show ?thesis
    by (simp add: s rstrip_Cons_keep assms)
next
  case False
  then have "sep \<notin> set (rstrip s)" using set_rstrip by blast
  then have a: "takeWhile (\<lambda>c. c \<noteq> sep) (rstrip s) = rstrip s"
    by (intro takeWhile_eq_all_conv [THEN iffD2]) auto
  have b: "takeWhile (\<lambda>c. c \<noteq> sep) s = s"
    using False by (intro takeWhile_eq_all_conv [THEN iffD2]) auto
  show ?thesis by (simp only: a b rstrip_idem)
qed

lemma strip_before_sep:
  assumes "\<not> isspace sep"
  shows "strip (takeWhile (\<lambda>c. c \<noteq> sep) (strip s)) = strip (takeWhile (\<lambda>c. c \<noteq> sep) s)"
proof -
  have "strip (takeWhile (\<lambda>c. c \<noteq> sep) (strip s)) =
        lstrip (rstrip (lstrip (takeWhile (\<lambda>c. c \<noteq> sep) (rstrip s))))"
    by (simp add: strip_def takeWhile_lstrip assms)
  also have "\<dots> = lstrip (lstrip (rstrip (takeWhile (\<lambda>c. c \<noteq> sep) (rstrip s))))"
    by (simp add: strip_commute)
  also have "\<dots> = lstrip (rstrip (takeWhile (\<lambda>c. c \<noteq> sep) s))"
    by (simp add: lstrip_idem rstrip_takeWhile_rstrip assms)
  finally show ?thesis by (simp add: strip_def)
qed

lemma comma_not_space: "\<not> isspace 44"
  by (simp add: isspace_def)

section \<open>The fields of a record\<close>

lemma extract_try_fetched:
  assumes "get env url = Inr r" and "raise_for_status r = Inr ()"
    and "html_parser env (response_text r) = Inr soup"
  shows "extract_try env url d =
     (None, extract_description soup (extract_price soup (extract_stats soup
              (extract_address soup (extract_title soup d)))))"
  using assms by (simp add: extract_try_def)

lemma extract_try_failed:
  "get env url = Inl e \<Longrightarrow> extract_try env url d = (Some e, d)"
  "get env url = Inr r \<Longrightarrow> raise_for_status r = Inl e \<Longrightarrow> extract_try env url d = (Some e, d)"
  "get env url = Inr r \<Longrightarrow> raise_for_status r = Inr () \<Longrightarrow>
   html_parser env (response_text r) = Inl e \<Longrightarrow> extract_try env url d = (Some e, d)"
  by (simp_all add: extract_try_def)

lemma keys_extract_all:
  assumes "map fst d = field_names"
  shows "map fst (extract_description soup (extract_price soup (extract_stats soup
              (extract_address soup (extract_title soup d))))) = field_names"
  by (intro keys_extract_description keys_extract_price keys_extract_stats keys_extract_address
      keys_extract_title assms) (simp_all add: field_names_def)

lemma extract_try_keys:
  assumes "map fst d = field_names"
  shows "map fst (snd (extract_try env url d)) = field_names"
  using assms keys_extract_all [OF assms]
  by (simp add: extract_try_def split: sum.splits)

lemma extract_snd:
  "extract_apartment_details env url = snd (extract_try env url (initial_details url))"
  by (cases "extract_try env url (initial_details url)")
     (simp add: extract_apartment_details_def split: option.splits)

lemma extract_keys: "map fst (extract_apartment_details env url) = field_names"
proof -
  have "map fst (initial_details url) = field_names"
    by (simp add: field_names_def initial_details_def)
  from extract_try_keys [OF this, of env url] show ?thesis
    by (simp add: extract_snd)
qed

lemma map_of_extract_all:
  assumes "k \<noteq> lit ''title''" "k \<noteq> lit ''address''" "k \<noteq> lit ''size''" "k \<noteq> lit ''rooms''"
    "k \<noteq> lit ''price''" "k \<noteq> lit ''description''"
  shows "map_of (extract_description soup (extract_price soup (extract_stats soup
              (extract_address soup (extract_title soup d))))) k = map_of d k"
  using assms
  by (simp add: map_of_extract_description map_of_extract_price map_of_extract_stats
      map_of_extract_address map_of_extract_title)

lemma extract_try_other:
  assumes "k \<noteq> lit ''title''" "k \<noteq> lit ''address''" "k \<noteq> lit ''size''" "k \<noteq> lit ''rooms''"
    "k \<noteq> lit ''price''" "k \<noteq> lit ''description''"
  shows "map_of (snd (extract_try env url d)) k = map_of d k"
  using map_of_extract_all [OF assms]
  by (simp add: extract_try_def split: sum.splits)

section \<open>The links of a page\<close>

lemma set_add_new: "set (add_new acc xs) = set acc \<union> set xs"
  by (induction xs arbitrary: acc) auto

lemma distinct_add_new: "distinct acc \<Longrightarrow> distinct (add_new acc xs)"
  by (induction xs arbitrary: acc) auto

lemma index_of_less: "x \<in> set xs \<Longrightarrow> index_of xs x < length xs"
  unfolding index_of_def by (induction xs) auto

lemma index_of_append_in: "x \<in> set xs \<Longrightarrow> index_of (xs @ ys) x = index_of xs x"
  unfolding index_of_def by (induction xs) auto

lemma index_of_append_out: "x \<notin> set xs \<Longrightarrow> index_of (xs @ ys) x = length xs + index_of ys x"
  unfolding index_of_def by (induction xs) auto

lemma index_of_Cons: "index_of (y # ys) x = (if x = y then 0 else Suc (index_of ys x))"
  by (simp add: index_of_def)

lemma seen_key_skip:
  assumes "x \<in> set acc" "u \<in> set acc \<union> set xs" "v \<in> set acc \<union> set xs"
  shows "seen_key acc (x # xs) u < seen_key acc (x # xs) v \<longleftrightarrow> seen_key acc xs u < seen_key acc xs v"
  using assms index_of_less [of u acc] index_of_less [of v acc]
  by (auto simp: seen_key_def index_of_Cons)

lemma seen_key_push:
  assumes "x \<notin> set acc"
  shows "seen_key (acc @ [x]) xs w = seen_key acc (x # xs) w"
  using assms
  by (auto simp: seen_key_def index_of_Cons index_of_append_in index_of_append_out)

lemma add_new_order:
  assumes "u \<in> set acc \<union> set xs" "v \<in> set acc \<union> set xs"
  shows "index_of (add_new acc xs) u < index_of (add_new acc xs) v \<longleftrightarrow>
         seen_key acc xs u < seen_key acc xs v"
  using assms
proof (induction xs arbitrary: acc)
  case Nil
  then show ?case by (simp add: seen_key_def)
next
  case (Cons x xs)
  show ?case
  proof (cases "x \<in> set acc")
    case True
    with Cons.prems have uv: "u \<in> set acc \<union> set xs" "v \<in> set acc \<union> set xs" by auto
    show ?thesis
      using True Cons.IH [OF uv] seen_key_skip [OF True uv] by simp
  next
    case False
    with Cons.prems have uv: "u \<in> set (acc @ [x]) \<union> set xs" "v \<in> set (acc @ [x]) \<union> set xs"
      by auto
    show ?thesis
      using False Cons.IH [OF uv] by (simp add: seen_key_push)
  qed
qed

lemma add_new_first_seen:
  assumes "u \<in> set xs" "v \<in> set xs"
  shows "index_of (add_new [] xs) u < index_of (add_new [] xs) v \<longleftrightarrow> index_of xs u < index_of xs v"
  using add_new_order [of u "[]" xs v] assms by (simp add: seen_key_def)

lemma count_distinct: "distinct xs \<Longrightarrow> x \<in> set xs \<Longrightarrow> count_list xs x = 1"
  by (induction xs) auto

lemma reached_all:
  "\<forall>u \<in> set us. print_out env (lit ''Found listing: '' @ u) = None \<Longrightarrow> reached env us = us"
  by (induction us) simp_all

lemma reached_prefix: "prefix (reached env us) us"
  by (induction us) simp_all

lemma set_reached: "set (reached env us) \<subseteq> set us"
  using reached_prefix [of env us] by (rule set_mono_prefix)

lemma index_of_reached:
  assumes "u \<in> set (reached env us)"
  shows "index_of (reached env us) u = index_of us u"
proof -
  obtain zs where zs: "reached env us @ zs = us"
    using reached_prefix [of env us] unfolding prefix_def by metis
  from index_of_append_in [OF assms, of zs] show ?thesis
    unfolding zs by simp
qed

lemma crawl_loop_add_new:
  assumes "\<forall>link \<in> set links. map_of (attrs link) (lit ''href'') \<noteq> None"
    and "\<forall>a \<in> set acc. print_out env (lit ''Found listing: '' @ a) = None"
  shows "snd (crawl_loop env url links acc) =
     add_new acc (reached env (map (urljoin env url)
        (filter (\<lambda>href. startswith href (lit ''/en/furnished-apartment/''))
           (List.map_filter (\<lambda>link. map_of (attrs link) (lit ''href'')) links))))"
  using assms
proof (induction links arbitrary: acc)
  case Nil
  then show ?case by simp
next
  case (Cons link links)
  then obtain href where href: "map_of (attrs link) (lit ''href'') = Some href" by auto
  show ?case
  proof (cases "startswith href (lit ''/en/furnished-apartment/'')")
    case False
    with href Cons show ?thesis by (simp add: List.map_filter_simps)
  next
    case True
    show ?thesis
    proof (cases "urljoin env url href \<in> set acc")
      case in_acc: True
      with Cons.prems(2) have "print_out env (lit ''Found listing: '' @ urljoin env url href) = None"
        by simp
      with href True in_acc Cons show ?thesis by (simp add: List.map_filter_simps)
    next
      case new: False
      show ?thesis
      proof (cases "print_out env (lit ''Found listing: '' @ urljoin env url href)")
        case (Some e)
        with href True new show ?thesis by (simp add: List.map_filter_simps)
      next
        case None
        with Cons.prems(2)
        have "\<forall>a \<in> set (acc @ [urljoin env url href]).
            print_out env (lit ''Found listing: '' @ a) = None"
          by simp
        with Cons.IH [of "acc @ [urljoin env url href]"] Cons.prems(1) href True new None
        show ?thesis by (simp add: List.map_filter_simps)
      qed
    qed
  qed
qed

lemma crawl_snd: "crawl env url = snd (crawl_try env url [])"
  by (cases "crawl_try env url []") (simp add: crawl_def split: option.splits)

lemma crawl_reached:
  assumes "get env url = Inr r" and "raise_for_status r = Inr ()"
    and "html_parser env (response_text r) = Inr soup"
  shows "crawl env url = add_new [] (reached env (listing_urls env url soup))"
proof -
  have "\<forall>link \<in> set (find_all (has_attr ''a'' ''href'') soup). map_of (attrs link) (lit ''href'') \<noteq> None"
    by (simp add: find_all_def has_attr_def)
  from crawl_loop_add_new [OF this, of "[]" env url] assms show ?thesis
    by (simp add: crawl_snd crawl_try_def listing_urls_def hrefs_def)
qed

lemma crawl_fetched:
  assumes "get env url = Inr r" and "raise_for_status r = Inr ()"
    and "html_parser env (response_text r) = Inr soup"
    and "\<forall>u \<in> set (listing_urls env url soup). print_out env (lit ''Found listing: '' @ u) = None"
  shows "crawl env url = add_new [] (listing_urls env url soup)"
  using crawl_reached [OF assms(1-3)] reached_all [OF assms(4)] by simp

lemma crawl_failed:
  "get env url = Inl e \<Longrightarrow> crawl env url = []"
  "get env url = Inr r \<Longrightarrow> raise_for_status r = Inl e \<Longrightarrow> crawl env url = []"
  "get env url = Inr r \<Longrightarrow> raise_for_status r = Inr () \<Longrightarrow>
   html_parser env (response_text r) = Inl e \<Longrightarrow> crawl env url = []"
  by (simp_all add: crawl_snd crawl_try_def)

section \<open>The driver\<close>


















section \<open>Field values after a fetch\<close>

lemma extract_fetched:
  assumes "get env url = Inr r" and "raise_for_status r = Inr ()"
    and "html_parser env (response_text r) = Inr soup"
  shows "extract_apartment_details env url =
     extract_description soup (extract_price soup (extract_stats soup
       (extract_address soup (extract_title soup (initial_details url)))))"
  using extract_try_fetched [OF assms] by (simp add: extract_snd)

lemma extract_failed:
  assumes "(\<exists>e. get env url = Inl e) \<or>
     (\<exists>r. get env url = Inr r \<and> 400 \<le> status_code r \<and> status_code r < 600)"
  shows "extract_apartment_details env url = initial_details url"
  using assms by (auto simp: extract_snd extract_try_def raise_for_status_def)

lemma price_fetched:
  assumes "get env url = Inr r" and "raise_for_status r = Inr ()"
    and "html_parser env (response_text r) = Inr soup"
  shows "map_of (extract_apartment_details env url) (lit ''price'') =
     map_of (extract_price soup (initial_details url)) (lit ''price'')"
proof -
  have "map_of (extract_price soup (extract_stats soup (extract_address soup
          (extract_title soup (initial_details url))))) (lit ''price'') =
        map_of (extract_price soup (initial_details url)) (lit ''price'')"
    by (simp add: extract_price_def update_conv' Let_def map_of_extract_stats
        map_of_extract_address map_of_extract_title lit_eq_iff split: option.splits)
  then show ?thesis
    by (simp add: extract_fetched [OF assms] map_of_extract_description lit_eq_iff)
qed

lemma size_fetched:
  assumes "get env url = Inr r" and "raise_for_status r = Inr ()"
    and "html_parser env (response_text r) = Inr soup"
  shows "map_of (extract_apartment_details env url) (lit ''size'') =
     map_of (extract_stats soup (initial_details url)) (lit ''size'')"
proof -
  have "map_of (extract_stats soup (extract_address soup
          (extract_title soup (initial_details url)))) (lit ''size'') =
        map_of (extract_stats soup (initial_details url)) (lit ''size'')"
    by (simp add: extract_stats_def extract_size_def update_conv' map_of_extract_rooms
        map_of_extract_address map_of_extract_title lit_eq_iff split: option.splits list.splits)
  then show ?thesis
    by (simp add: extract_fetched [OF assms] map_of_extract_description map_of_extract_price
        lit_eq_iff)
qed

section \<open>The sample pages\<close>

lemma lit_Nil_iff: "lit a = [] \<longleftrightarrow> a = []" "[] = lit a \<longleftrightarrow> a = []"
  by (auto simp: lit_def)

lemmas sample_tags = document_def title_tag_def address_tag_def size_inner_def size_span_def
  rooms_inner_def rooms_span_def stats_container_def price_value_tag_def price_unit_tag_def
  price_wrapper_def desc_tag_def from_span_def two_span_wrapper_def

lemmas search = find_def find_all_def by_class_def by_name_def by_attr_def has_attr_def
  lit_append [symmetric] lit_eq_iff lit_Nil_iff

lemmas text_eval = lit_def strip_def lstrip_def rstrip_def isspace_def

lemma listing_page_finds:
  "find (by_class ''h2'' ''ListingDetails-title'') listing_page = Some title_tag"
  "find (by_attr ''span'' ''data-testid'' ''ListingDetailsPage-address'') listing_page = Some address_tag"
  "find (by_class ''div'' ''ListingDetails-stats'') listing_page = Some stats_container"
  "find (by_class ''div'' ''ListingPriceText__wrapper'') listing_page = Some price_wrapper"
  "find (by_class ''div'' ''description'') listing_page = Some desc_tag"
  by (simp_all add: listing_page_def sample_tags search)

lemma stats_container_finds:
  "find (by_class ''span'' ''ListingDetails-statsElt floor'') stats_container = Some size_span"
  "find (by_class ''span'' ''ListingDetails-statsElt rooms'') stats_container = Some rooms_span"
  "find (by_name ''span'') size_span = Some size_inner"
  "find (by_name ''span'') rooms_span = Some rooms_inner"
  by (simp_all add: sample_tags search)

lemma price_wrapper_finds:
  "find (by_class ''strong'' ''ListingPriceText__value'') price_wrapper = Some price_value_tag"
  "find (by_name ''span'') price_wrapper = Some price_unit_tag"
  by (simp_all add: sample_tags search)

lemma two_span_finds:
  "find (by_class ''div'' ''ListingPriceText__wrapper'') two_span_page = Some two_span_wrapper"
  "find (by_class ''strong'' ''ListingPriceText__value'') two_span_wrapper = Some price_value_tag"
  "find (by_name ''span'') two_span_wrapper = Some from_span"
  by (simp_all add: two_span_page_def sample_tags search)

lemma plain_page_finds:
  "find (by_class ''h2'' ''ListingDetails-title'') plain_page = None"
  "find (by_attr ''span'' ''data-testid'' ''ListingDetailsPage-address'') plain_page = None"
  "find (by_class ''div'' ''ListingDetails-basic'') plain_page = None"
  "find (by_class ''div'' ''ListingDetails-stats'') plain_page = None"
  "find (by_class ''div'' ''ListingPriceText__wrapper'') plain_page = None"
  "find (by_class ''div'' ''description'') plain_page = None"
  by (simp_all add: plain_page_def sample_tags search)

lemma sample_texts:
  "strip (get_text title_tag) = lit ''Sunny flat in Kreuzberg''"
  "strip (get_text address_tag) = lit ''Berlin''"
  "strip (takeWhile (\<lambda>c. c \<noteq> 44) (get_text size_inner)) = lit ''98 m'' @ [178]"
  "strip (get_text rooms_inner) = lit ''3 rooms''"
  "strip (get_text price_value_tag) = lit ''1.200 '' @ [8364]"
  "strip (get_text price_unit_tag) = lit ''per month''"
  "strip (get_text desc_tag) = lit ''Bright rooms.''"
  by (simp_all add: sample_tags text_eval)

lemma sample_contains:
  "contains (get_text price_unit_tag) (lit ''per month'')"
  "\<not> contains (get_text from_span) (lit ''per month'')"
  by (simp_all add: sample_tags contains_def lit_def sublist_code(3))

lemma extract_listing_page:
  "extract_description listing_page (extract_price listing_page (extract_stats listing_page
     (extract_address listing_page (extract_title listing_page (initial_details listing_a))))) =
   record_a"
proof -
  have sz: "split 44 (strip (get_text size_inner)) = [lit ''98 m'' @ [178], lit '' floor 2'']"
    by (simp add: sample_tags text_eval)
  have "strip (lit ''98 m'' @ [178]) = lit ''98 m'' @ [178]"
    by (simp add: text_eval)
  then show ?thesis
    by (simp add: extract_title_def extract_address_def extract_stats_def extract_size_def
        extract_rooms_def extract_price_def extract_description_def initial_details_def
        listing_page_finds stats_container_finds price_wrapper_finds sample_texts sample_contains
        sz record_a_def lit_eq_iff lit_append [symmetric])
qed

lemma page_urls:
  "page_url 1 = lit ''https://wunderflats.com/en/furnished-apartments/berlin/'' @ [49] @
     lit (''?from=2025-07-01&to=2025-09-30&flexibleDays=14&scoreVariant=B'' @
          ''&minRooms=3&homeType=ENTIRE_APARTMENT&minSize=60'')"
  "page_url 2 = lit ''https://wunderflats.com/en/furnished-apartments/berlin/'' @ [50] @
     lit (''?from=2025-07-01&to=2025-09-30&flexibleDays=14&scoreVariant=B'' @
          ''&minRooms=3&homeType=ENTIRE_APARTMENT&minSize=60'')"
  "page_url 3 = lit ''https://wunderflats.com/en/furnished-apartments/berlin/'' @ [51] @
     lit (''?from=2025-07-01&to=2025-09-30&flexibleDays=14&scoreVariant=B'' @
          ''&minRooms=3&homeType=ENTIRE_APARTMENT&minSize=60'')"
  by (simp_all add: page_url_def str_of_nat.simps del: One_nat_def)

lemma results_page_hrefs:
  "hrefs results_page =
     [lit ''/en/furnished-apartment/a'', lit ''/en/about'', lit ''/en/furnished-apartment/b'',
      lit ''/en/furnished-apartment/a'']"
  by (simp add: hrefs_def results_page_def document_def find_all_def has_attr_def
      List.map_filter_simps lit_eq_iff)

lemma results_page_listing_urls:
  "urljoin env = (\<lambda>base href. lit ''https://wunderflats.com'' @ href) \<Longrightarrow>
   listing_urls env url results_page = [listing_a, listing_b, listing_a]"
  by (simp add: listing_urls_def results_page_hrefs startswith_def listing_a_def listing_b_def
      lit_def)

lemma has_surrogate_simps:
  "\<not> has_surrogate (lit s)"
  "has_surrogate (a @ b) \<longleftrightarrow> has_surrogate a \<or> has_surrogate b"
  "has_surrogate (c # a) \<longleftrightarrow> (55296 \<le> c \<and> c \<le> 57343) \<or> has_surrogate a"
  "\<not> has_surrogate []"
proof -
  have "of_char c < (256::nat)" for c by simp
  then have "\<not> (55296 \<le> (of_char c :: nat))" for c
    using order_less_le_trans [of "of_char c :: nat" 256 55296] by (simp add: not_le)
  then show "\<not> has_surrogate (lit s)"
    by (simp add: has_surrogate_def lit_def list_ex_iff)
qed (auto simp: has_surrogate_def)

lemma sample_lines:
  "utf8_console (lit ''Found listing: '' @ listing_a) = None"
  "utf8_console (lit ''Found listing: '' @ listing_b) = None"
  "utf8_console (lit ''Found listing: '' @ listing_s) = Some UnicodeEncodeError"
  by (simp_all add: utf8_console_def listing_a_def listing_b_def listing_s_def has_surrogate_simps)

lemma surrogate_page_hrefs:
  "hrefs surrogate_page =
     [lit ''/en/furnished-apartment/'' @ [56320], lit ''/en/furnished-apartment/a'',
      lit ''/en/furnished-apartment/a'']"
  by (simp add: hrefs_def surrogate_page_def document_def find_all_def has_attr_def
      List.map_filter_simps lit_eq_iff)

lemma surrogate_page_listing_urls:
  "listing_urls (answering 200 surrogate_page) url surrogate_page =
     [listing_s, listing_a, listing_a]"
proof -
  have "startswith (lit ''/en/furnished-apartment/'' @ [56320]) (lit ''/en/furnished-apartment/'')"
    "startswith (lit ''/en/furnished-apartment/a'') (lit ''/en/furnished-apartment/'')"
    by (simp_all add: startswith_def lit_def)
  then show ?thesis
    by (simp add: listing_urls_def surrogate_page_hrefs answering_def listing_s_def listing_a_def
        lit_append [symmetric])
qed

lemma surrogate_page_crawl:
  "crawl (answering 200 surrogate_page) (page_url 1) = [listing_s]"
proof -
  have "crawl (answering 200 surrogate_page) (page_url 1) =
      add_new [] (reached (answering 200 surrogate_page)
        (listing_urls (answering 200 surrogate_page) (page_url 1) surrogate_page))"
    by (rule crawl_reached [where r = "\<lparr>status_code = 200, response_text = []\<rparr>"])
       (simp_all add: answering_def raise_for_status_def)
  moreover have "print_out (answering 200 surrogate_page) = utf8_console"
    by (simp add: answering_def)
  ultimately show ?thesis
    by (simp add: surrogate_page_listing_urls sample_lines)
qed

lemma results_page_crawl:
  assumes "get env url = Inr r" and "raise_for_status r = Inr ()"
    and "html_parser env (response_text r) = Inr results_page"
    and "urljoin env = (\<lambda>base href. lit ''https://wunderflats.com'' @ href)"
    and "print_out env = utf8_console"
  shows "crawl env url = [listing_a, listing_b]"
proof -
  have l: "listing_urls env url results_page = [listing_a, listing_b, listing_a]"
    using assms(4) by (rule results_page_listing_urls)
  have "crawl env url = add_new [] (listing_urls env url results_page)"
    using assms(1-3) by (rule crawl_fetched) (simp add: l assms(5) sample_lines)
  then show ?thesis
    by (simp add: l listing_a_def listing_b_def lit_eq_iff)
qed


lemma site_extract:
  "extract_apartment_details site listing_a = record_a"
  "extract_apartment_details site listing_b = record_b"
proof -
  have ne: "listing_a \<noteq> page_url 1" "listing_a \<noteq> page_url 2" "listing_b \<noteq> page_url 1"
    "listing_b \<noteq> page_url 2" "listing_b \<noteq> listing_a"
    by (simp_all add: page_urls listing_a_def listing_b_def lit_def del: One_nat_def)
  have "get site listing_a = Inr \<lparr>status_code = 200, response_text = lit ''listing''\<rparr>"
    using ne by (simp add: site_def del: One_nat_def)
  then have "extract_apartment_details site listing_a =
     extract_description listing_page (extract_price listing_page (extract_stats listing_page
       (extract_address listing_page (extract_title listing_page (initial_details listing_a)))))"
    by (rule extract_fetched) (simp_all add: site_def raise_for_status_def lit_eq_iff)
  then show "extract_apartment_details site listing_a = record_a"
    by (simp add: extract_listing_page)
  have "get site listing_b = Inl Timeout"
    using ne by (simp add: site_def del: One_nat_def)
  then show "extract_apartment_details site listing_b = record_b"
    by (simp add: extract_snd extract_try_failed(1) initial_details_def record_b_def)
qed







section \<open>Detail extraction\<close>

text \<open>
  C1, as amended. When the request for a detail URL raises an exception (a connection
  time-out, a connection error), or is answered with a client-error or server-error status
  (\<open>400\<close> to \<open>599\<close>, for example \<open>404\<close>), \<open>extract_apartment_details\<close> returns the
  record it started with: \<open>url\<close> is the requested URL, \<open>title\<close>, \<open>price\<close>, \<open>size\<close>,
  \<open>rooms\<close>, \<open>address\<close> and \<open>description\<close> are \<open>Not Found\<close>, and \<open>availability\<close> is
  \<open>Not implemented\<close>. The result is a record, so the error does not reach the caller.
\<close>

theorem extract_defaults_on_failed_fetch:
  assumes "(\<exists>e. get env url = Inl e) \<or>
     (\<exists>r. get env url = Inr r \<and> 400 \<le> status_code r \<and> status_code r < 600)"
  shows "extract_apartment_details env url =
        [(lit ''url'', url),
         (lit ''title'', lit ''Not Found''),
         (lit ''price'', lit ''Not Found''),
         (lit ''size'', lit ''Not Found''),
         (lit ''rooms'', lit ''Not Found''),
         (lit ''address'', lit ''Not Found''),
         (lit ''description'', lit ''Not Found''),
         (lit ''availability'', lit ''Not implemented'')]"
  using extract_failed [OF assms] by (simp add: initial_details_def)

text \<open>
  The amended C1 on a site where every request times out, and on a site that answers
  \<open>404\<close> with a full listing page as body.
\<close>

theorem extract_defaults_on_failed_fetch_witness:
  "extract_apartment_details timing_out listing_a =
        [(lit ''url'', listing_a),
         (lit ''title'', lit ''Not Found''),
         (lit ''price'', lit ''Not Found''),
         (lit ''size'', lit ''Not Found''),
         (lit ''rooms'', lit ''Not Found''),
         (lit ''address'', lit ''Not Found''),
         (lit ''description'', lit ''Not Found''),
         (lit ''availability'', lit ''Not implemented'')] \<and>
   extract_apartment_details (answering 404 listing_page) listing_a =
        [(lit ''url'', listing_a),
         (lit ''title'', lit ''Not Found''),
         (lit ''price'', lit ''Not Found''),
         (lit ''size'', lit ''Not Found''),
         (lit ''rooms'', lit ''Not Found''),
         (lit ''address'', lit ''Not Found''),
         (lit ''description'', lit ''Not Found''),
         (lit ''availability'', lit ''Not implemented'')]"
proof -
  have "\<exists>e. get timing_out listing_a = Inl e"
    by (simp add: timing_out_def)
  moreover have "\<exists>r. get (answering 404 listing_page) listing_a = Inr r \<and>
       400 \<le> status_code r \<and> status_code r < 600"
    by (simp add: answering_def)
  ultimately show ?thesis
    using extract_defaults_on_failed_fetch [of timing_out listing_a]
      extract_defaults_on_failed_fetch [of "answering 404 listing_page" listing_a]
    by blast
qed

text \<open>
  C1 as stated, for every status outside \<open>200\<close> to \<open>299\<close>, does not hold:
  \<open>raise_for_status\<close> does not raise for a status below \<open>400\<close>. A \<open>300\<close> answer whose
  body is the sample listing page is parsed like any page, and the record holds the title,
  the price and the other values of the page.
\<close>

theorem extract_status_300_counterexample:
  "get (answering 300 listing_page) listing_a = Inr \<lparr>status_code = 300, response_text = []\<rparr> \<and>
   \<not> (200 \<le> (300::nat) \<and> (300::nat) < 300) \<and>
   extract_apartment_details (answering 300 listing_page) listing_a =
        [(lit ''url'', listing_a),
         (lit ''title'', lit ''Sunny flat in Kreuzberg''),
         (lit ''price'', lit ''1.200 '' @ [8364] @ lit '' per month''),
         (lit ''size'', lit ''98 m'' @ [178]),
         (lit ''rooms'', lit ''3 rooms''),
         (lit ''address'', lit ''Berlin''),
         (lit ''description'', lit ''Bright rooms.''),
         (lit ''availability'', lit ''Not implemented'')] \<and>
   extract_apartment_details (answering 300 listing_page) listing_a \<noteq>
        [(lit ''url'', listing_a),
         (lit ''title'', lit ''Not Found''),
         (lit ''price'', lit ''Not Found''),
         (lit ''size'', lit ''Not Found''),
         (lit ''rooms'', lit ''Not Found''),
         (lit ''address'', lit ''Not Found''),
         (lit ''description'', lit ''Not Found''),
         (lit ''availability'', lit ''Not implemented'')]"
proof -
  have g: "get (answering 300 listing_page) listing_a = Inr \<lparr>status_code = 300, response_text = []\<rparr>"
    by (simp add: answering_def)
  have "extract_apartment_details (answering 300 listing_page) listing_a =
     extract_description listing_page (extract_price listing_page (extract_stats listing_page
       (extract_address listing_page (extract_title listing_page (initial_details listing_a)))))"
    using g by (rule extract_fetched) (simp_all add: answering_def raise_for_status_def)
  then have e: "extract_apartment_details (answering 300 listing_page) listing_a = record_a"
    by (simp only: extract_listing_page)
  have "lit ''Sunny flat in Kreuzberg'' \<noteq> lit ''Not Found''"
    by (simp add: lit_eq_iff)
  with g show ?thesis
    unfolding e by (simp add: record_a_def)
qed

text \<open>
  C4. When the page is fetched and parsed, \<open>availability\<close> is \<open>Not implemented\<close> whatever
  the page contains. The text used for a missing description section differs from
  \<open>Not Found\<close>. When the page has none of the six patterns the extraction looks for, the
  record is: \<open>url\<close> the requested URL; \<open>title\<close>, \<open>price\<close>, \<open>size\<close>, \<open>rooms\<close> and \<open>address\<close>
  \<open>Not Found\<close>; \<open>description\<close> the text for a missing description section;
  \<open>availability\<close> \<open>Not implemented\<close>.
\<close>

theorem extract_page_without_patterns:
  assumes "get env url = Inr r" and "raise_for_status r = Inr ()"
    and "html_parser env (response_text r) = Inr soup"
  shows
    "map_of (extract_apartment_details env url) (lit ''availability'') =
       Some (lit ''Not implemented'') \<and>
     lit ''Description section not found (using generic selector)'' \<noteq> lit ''Not Found'' \<and>
     (find (by_class ''h2'' ''ListingDetails-title'') soup = None \<and>
      find (by_attr ''span'' ''data-testid'' ''ListingDetailsPage-address'') soup = None \<and>
      find (by_class ''div'' ''ListingDetails-basic'') soup = None \<and>
      find (by_class ''div'' ''ListingDetails-stats'') soup = None \<and>
      find (by_class ''div'' ''ListingPriceText__wrapper'') soup = None \<and>
      find (by_class ''div'' ''description'') soup = None \<longrightarrow>
      extract_apartment_details env url =
        [(lit ''url'', url),
         (lit ''title'', lit ''Not Found''),
         (lit ''price'', lit ''Not Found''),
         (lit ''size'', lit ''Not Found''),
         (lit ''rooms'', lit ''Not Found''),
         (lit ''address'', lit ''Not Found''),
         (lit ''description'', lit ''Description section not found (using generic selector)''),
         (lit ''availability'', lit ''Not implemented'')])"
proof (intro conjI impI)
  have "map_of (snd (extract_try env url (initial_details url))) (lit ''availability'') =
        map_of (initial_details url) (lit ''availability'')"
    by (rule extract_try_other) (simp_all add: lit_eq_iff)
  then show "map_of (extract_apartment_details env url) (lit ''availability'') =
       Some (lit ''Not implemented'')"
    by (simp add: extract_snd initial_details_def lit_eq_iff)
  show "lit ''Description section not found (using generic selector)'' \<noteq> lit ''Not Found''"
    by (simp add: lit_eq_iff)
next
  assume "find (by_class ''h2'' ''ListingDetails-title'') soup = None \<and>
      find (by_attr ''span'' ''data-testid'' ''ListingDetailsPage-address'') soup = None \<and>
      find (by_class ''div'' ''ListingDetails-basic'') soup = None \<and>
      find (by_class ''div'' ''ListingDetails-stats'') soup = None \<and>
      find (by_class ''div'' ''ListingPriceText__wrapper'') soup = None \<and>
      find (by_class ''div'' ''description'') soup = None"
  then show "extract_apartment_details env url =
        [(lit ''url'', url),
         (lit ''title'', lit ''Not Found''),
         (lit ''price'', lit ''Not Found''),
         (lit ''size'', lit ''Not Found''),
         (lit ''rooms'', lit ''Not Found''),
         (lit ''address'', lit ''Not Found''),
         (lit ''description'', lit ''Description section not found (using generic selector)''),
         (lit ''availability'', lit ''Not implemented'')]"
    by (simp add: extract_fetched [OF assms] extract_title_def extract_address_def
        extract_stats_def extract_price_def extract_description_def initial_details_def lit_eq_iff)
qed

text \<open>C4 on a page that holds one paragraph, and the availability of a full listing page.\<close>

theorem extract_page_without_patterns_witness:
  "extract_apartment_details (answering 200 plain_page) listing_a =
        [(lit ''url'', listing_a),
         (lit ''title'', lit ''Not Found''),
         (lit ''price'', lit ''Not Found''),
         (lit ''size'', lit ''Not Found''),
         (lit ''rooms'', lit ''Not Found''),
         (lit ''address'', lit ''Not Found''),
         (lit ''description'', lit ''Description section not found (using generic selector)''),
         (lit ''availability'', lit ''Not implemented'')] \<and>
   map_of (extract_apartment_details (answering 200 listing_page) listing_a) (lit ''availability'') =
     Some (lit ''Not implemented'')"
proof -
  have a: "get (answering 200 page) listing_a = Inr \<lparr>status_code = 200, response_text = []\<rparr>"
    "raise_for_status \<lparr>status_code = 200, response_text = []\<rparr> = Inr ()"
    "html_parser (answering 200 page) (response_text \<lparr>status_code = 200, response_text = []\<rparr>) = Inr page"
    for page
    by (simp_all add: answering_def raise_for_status_def)
  from extract_page_without_patterns [OF a, of plain_page] extract_page_without_patterns [OF a, of listing_page]
    plain_page_finds
  show ?thesis by simp
qed

text \<open>
  C6, as amended. Let the page be fetched and parsed. When the price wrapper has a value
  element, and the first \<open>span\<close> element inside the wrapper has a text that contains
  \<open>per month\<close>, the price is the trimmed value text, one space, and the trimmed text of that
  \<open>span\<close>. When the wrapper has a value element and either no \<open>span\<close> at all or a first
  \<open>span\<close> without \<open>per month\<close> in its text, the price is the trimmed value text alone. When
  there is no wrapper, or no value element in it, the price stays \<open>Not Found\<close>.
\<close>

theorem price_field:
  assumes "get env url = Inr r" and "raise_for_status r = Inr ()"
    and "html_parser env (response_text r) = Inr soup"
  shows
    "(find (by_class ''div'' ''ListingPriceText__wrapper'') soup = Some wrapper \<and>
      find (by_class ''strong'' ''ListingPriceText__value'') wrapper = Some val \<and>
      find (by_name ''span'') wrapper = Some unit \<and>
      contains (get_text unit) (lit ''per month'') \<longrightarrow>
      map_of (extract_apartment_details env url) (lit ''price'') =
        Some (strip (get_text val) @ lit '' '' @ strip (get_text unit))) \<and>
     (find (by_class ''div'' ''ListingPriceText__wrapper'') soup = Some wrapper \<and>
      find (by_class ''strong'' ''ListingPriceText__value'') wrapper = Some val \<and>
      (find (by_name ''span'') wrapper = None \<or>
       (find (by_name ''span'') wrapper = Some unit \<and>
        \<not> contains (get_text unit) (lit ''per month''))) \<longrightarrow>
      map_of (extract_apartment_details env url) (lit ''price'') = Some (strip (get_text val))) \<and>
     (find (by_class ''div'' ''ListingPriceText__wrapper'') soup = None \<or>
      (find (by_class ''div'' ''ListingPriceText__wrapper'') soup = Some wrapper \<and>
       find (by_class ''strong'' ''ListingPriceText__value'') wrapper = None) \<longrightarrow>
      map_of (extract_apartment_details env url) (lit ''price'') = Some (lit ''Not Found''))"
  unfolding price_fetched [OF assms]
  by (auto simp: extract_price_def update_conv' Let_def initial_details_def lit_eq_iff)

text \<open>
  The three cases of the amended C6: the listing page (value and unit), the page whose
  first \<open>span\<close> reads \<open>from\<close>, and the page without a price wrapper.
\<close>

theorem price_field_witness:
  "map_of (extract_apartment_details (answering 200 listing_page) listing_a) (lit ''price'') =
     Some (lit ''1.200 '' @ [8364] @ lit '' per month'') \<and>
   map_of (extract_apartment_details (answering 200 two_span_page) listing_a) (lit ''price'') =
     Some (lit ''1.200 '' @ [8364]) \<and>
   map_of (extract_apartment_details (answering 200 plain_page) listing_a) (lit ''price'') =
     Some (lit ''Not Found'')"
proof -
  have a: "get (answering 200 page) listing_a = Inr \<lparr>status_code = 200, response_text = []\<rparr>"
    "raise_for_status \<lparr>status_code = 200, response_text = []\<rparr> = Inr ()"
    "html_parser (answering 200 page) (response_text \<lparr>status_code = 200, response_text = []\<rparr>) = Inr page"
    for page
    by (simp_all add: answering_def raise_for_status_def)
  from price_field [OF a, of listing_page price_wrapper price_value_tag price_unit_tag]
  have 1: "map_of (extract_apartment_details (answering 200 listing_page) listing_a) (lit ''price'') =
     Some (lit ''1.200 '' @ [8364] @ lit '' per month'')"
    by (simp add: listing_page_finds price_wrapper_finds sample_contains sample_texts
        lit_append [symmetric])
  from price_field [OF a, of two_span_page two_span_wrapper price_value_tag from_span]
  have 2: "map_of (extract_apartment_details (answering 200 two_span_page) listing_a) (lit ''price'') =
     Some (lit ''1.200 '' @ [8364])"
    by (simp add: two_span_finds sample_contains sample_texts)
  from price_field [OF a, of plain_page wrapper val unit]
  have 3: "map_of (extract_apartment_details (answering 200 plain_page) listing_a) (lit ''price'') =
     Some (lit ''Not Found'')" for wrapper val unit
    by (simp add: plain_page_finds)
  from 1 2 3 show ?thesis by simp
qed

text \<open>
  C6 as stated does not hold: the program reads the first \<open>span\<close> inside the wrapper only.
  On the page whose wrapper holds the value element, a \<open>span\<close> reading \<open>from\<close> and a
  \<open>span\<close> reading \<open>per month\<close>, the value element has a sibling \<open>span\<close> with
  \<open>per month\<close>, and the price is the value alone.
\<close>

theorem price_two_spans_counterexample:
  "find (by_class ''div'' ''ListingPriceText__wrapper'') two_span_page = Some two_span_wrapper \<and>
   find (by_class ''strong'' ''ListingPriceText__value'') two_span_wrapper = Some price_value_tag \<and>
   contents two_span_wrapper = [Element price_value_tag, Element from_span, Element price_unit_tag] \<and>
   name price_unit_tag = lit ''span'' \<and>
   contains (get_text price_unit_tag) (lit ''per month'') \<and>
   map_of (extract_apartment_details (answering 200 two_span_page) listing_a) (lit ''price'') =
     Some (strip (get_text price_value_tag)) \<and>
   map_of (extract_apartment_details (answering 200 two_span_page) listing_a) (lit ''price'') \<noteq>
     Some (strip (get_text price_value_tag) @ lit '' '' @ strip (get_text price_unit_tag))"
proof -
  have "get (answering 200 two_span_page) listing_a = Inr \<lparr>status_code = 200, response_text = []\<rparr>"
    by (simp add: answering_def)
  then have "map_of (extract_apartment_details (answering 200 two_span_page) listing_a) (lit ''price'') =
     map_of (extract_price two_span_page (initial_details listing_a)) (lit ''price'')"
    by (rule price_fetched) (simp_all add: answering_def raise_for_status_def)
  then have "map_of (extract_apartment_details (answering 200 two_span_page) listing_a) (lit ''price'') =
     Some (strip (get_text price_value_tag))"
    by (simp add: extract_price_def two_span_finds sample_contains update_conv')
  moreover have "contents two_span_wrapper =
      [Element price_value_tag, Element from_span, Element price_unit_tag]"
    by (simp add: two_span_wrapper_def)
  moreover have "name price_unit_tag = lit ''span''"
    by (simp add: price_unit_tag_def)
  ultimately show ?thesis
    by (simp add: two_span_finds sample_contains lit_Nil_iff)
qed

text \<open>
  C7. When the page is fetched and parsed, and the size element inside the stats container
  has a nested \<open>span\<close>, the size is the text of that \<open>span\<close> before its first comma (code
  point \<open>44\<close>), trimmed: the whole text when it has no comma.
\<close>

theorem size_field:
  assumes "get env url = Inr r" and "raise_for_status r = Inr ()"
    and "html_parser env (response_text r) = Inr soup"
    and "find (by_class ''div'' ''ListingDetails-stats'') soup = Some stats"
    and "find (by_class ''span'' ''ListingDetails-statsElt floor'') stats = Some floor_span"
    and "find (by_name ''span'') floor_span = Some inner"
  shows "map_of (extract_apartment_details env url) (lit ''size'') =
     Some (strip (takeWhile (\<lambda>c. c \<noteq> 44) (get_text inner)))"
proof -
  obtain p ps where sp: "split 44 (strip (get_text inner)) = p # ps"
    using split_not_Nil [of 44 "strip (get_text inner)"]
    by (cases "split 44 (strip (get_text inner))") auto
  then have p: "p = takeWhile (\<lambda>c. c \<noteq> 44) (strip (get_text inner))"
    by (rule split_first)
  have "map_of (extract_stats soup (initial_details url)) (lit ''size'') = Some (strip p)"
    using assms(4-6) sp
    by (simp add: extract_stats_def extract_size_def map_of_extract_rooms update_conv' lit_eq_iff)
  then show ?thesis
    by (simp add: size_fetched [OF assms(1-3)] p strip_before_sep comma_not_space)
qed

text \<open>C7 on the listing page, whose size text is \<open>98 m\<^sup>2, floor 2\<close> between spaces.\<close>

theorem size_field_witness:
  "get_text size_inner = lit '' 98 m'' @ [178] @ lit '', floor 2 '' \<and>
   map_of (extract_apartment_details (answering 200 listing_page) listing_a) (lit ''size'') =
     Some (lit ''98 m'' @ [178])"
proof -
  have a: "get (answering 200 listing_page) listing_a = Inr \<lparr>status_code = 200, response_text = []\<rparr>"
    "raise_for_status \<lparr>status_code = 200, response_text = []\<rparr> = Inr ()"
    "html_parser (answering 200 listing_page) (response_text \<lparr>status_code = 200, response_text = []\<rparr>) =
       Inr listing_page"
    by (simp_all add: answering_def raise_for_status_def)
  have t: "get_text size_inner = lit '' 98 m'' @ [178] @ lit '', floor 2 ''"
    by (simp add: size_inner_def)
  have s: "map_of (extract_apartment_details (answering 200 listing_page) listing_a) (lit ''size'') =
     Some (lit ''98 m'' @ [178])"
    using size_field [OF a listing_page_finds(3) stats_container_finds(1) stats_container_finds(3)]
    by (simp only: sample_texts)
  from t s show ?thesis by (rule conjI)
qed

text \<open>
  C10. Whatever the network and the parser answer (a page, a time-out, an error status, an
  exception of the parser), the record has the eight fields \<open>url\<close>, \<open>title\<close>, \<open>price\<close>,
  \<open>size\<close>, \<open>rooms\<close>, \<open>address\<close>, \<open>description\<close>, \<open>availability\<close> in this order, and its
  \<open>url\<close> is the requested URL.
\<close>

theorem extract_fields_and_url:
  "map fst (extract_apartment_details env url) =
     [lit ''url'', lit ''title'', lit ''price'', lit ''size'', lit ''rooms'', lit ''address'',
      lit ''description'', lit ''availability''] \<and>
   map_of (extract_apartment_details env url) (lit ''url'') = Some url"
proof
  show "map fst (extract_apartment_details env url) =
     [lit ''url'', lit ''title'', lit ''price'', lit ''size'', lit ''rooms'', lit ''address'',
      lit ''description'', lit ''availability'']"
    using extract_keys [of env url] by (simp add: field_names_def)
  have "map_of (snd (extract_try env url d)) (lit ''url'') = map_of d (lit ''url'')" for d
    by (rule extract_try_other) (simp_all add: lit_eq_iff)
  then show "map_of (extract_apartment_details env url) (lit ''url'') = Some url"
    by (simp add: extract_snd initial_details_def)
qed

text \<open>C10 for the served listing of the sample site.\<close>

theorem extract_fields_and_url_witness:
  "map fst record_a =
     [lit ''url'', lit ''title'', lit ''price'', lit ''size'', lit ''rooms'', lit ''address'',
      lit ''description'', lit ''availability''] \<and>
   map_of record_a (lit ''url'') = Some listing_a"
  using extract_fields_and_url [of site listing_a] by (simp add: site_extract)

section \<open>Link discovery\<close>

text \<open>
  C3, as amended. When the result page is fetched and parsed, \<open>crawl\<close> returns no URL
  twice, returns only resolved listing URLs of the page, and orders the URLs it returns by
  their first occurrence in the list of resolved listing URLs in anchor order. When the
  line for each of these URLs can be printed, \<open>crawl\<close> returns every one of them, exactly
  once. \<open>crawl\<close> starts from an empty list in every call, so nothing is removed across
  calls: on the sample site both result pages return the same two links (\<open>site_crawl\<close>),
  and the driver collects four records (\<open>site_records\<close>).
\<close>

theorem crawl_deduplicates_first_seen:
  assumes "get env url = Inr r" and "raise_for_status r = Inr ()"
    and "html_parser env (response_text r) = Inr soup"
  shows
    "distinct (crawl env url) \<and>
     set (crawl env url) \<subseteq> set (listing_urls env url soup) \<and>
     (\<forall>u \<in> set (crawl env url). \<forall>v \<in> set (crawl env url).
        index_of (crawl env url) u < index_of (crawl env url) v \<longleftrightarrow>
        index_of (listing_urls env url soup) u < index_of (listing_urls env url soup) v) \<and>
     ((\<forall>u \<in> set (listing_urls env url soup).
         print_out env (lit ''Found listing: '' @ u) = None) \<longrightarrow>
      set (crawl env url) = set (listing_urls env url soup) \<and>
      (\<forall>u \<in> set (listing_urls env url soup). count_list (crawl env url) u = 1))"
proof -
  let ?xs = "listing_urls env url soup"
  let ?rs = "reached env ?xs"
  have c: "crawl env url = add_new [] ?rs"
    using assms by (rule crawl_reached)
  have s: "set (crawl env url) = set ?rs"
    unfolding c by (simp add: set_add_new)
  have d: "distinct (crawl env url)"
    unfolding c by (rule distinct_add_new) simp
  have sub: "set (crawl env url) \<subseteq> set ?xs"
    unfolding s by (rule set_reached)
  have o: "index_of (crawl env url) u < index_of (crawl env url) v \<longleftrightarrow>
        index_of ?xs u < index_of ?xs v"
    if "u \<in> set (crawl env url)" and "v \<in> set (crawl env url)" for u v
  proof -
    from that have uv: "u \<in> set ?rs" "v \<in> set ?rs" by (simp_all add: s)
    then have "index_of (add_new [] ?rs) u < index_of (add_new [] ?rs) v \<longleftrightarrow>
        index_of ?rs u < index_of ?rs v"
      by (rule add_new_first_seen)
    with uv show ?thesis by (simp add: c index_of_reached)
  qed
  have f: "set (crawl env url) = set ?xs \<and> (\<forall>u \<in> set ?xs. count_list (crawl env url) u = 1)"
    if "\<forall>u \<in> set ?xs. print_out env (lit ''Found listing: '' @ u) = None"
  proof -
    from that have "?rs = ?xs" by (rule reached_all)
    with s have "set (crawl env url) = set ?xs" by simp
    with d show ?thesis by (simp add: count_distinct)
  qed
  from d sub o f show ?thesis by blast
qed

text \<open>
  The amended C3 on the sample result page, where listing \<open>a\<close> is linked twice, before and
  after listing \<open>b\<close>, and every line can be printed.
\<close>

theorem crawl_deduplicates_first_seen_witness:
  "listing_urls (answering 200 results_page) (page_url 1) results_page =
     [listing_a, listing_b, listing_a] \<and>
   distinct (crawl (answering 200 results_page) (page_url 1)) \<and>
   set (crawl (answering 200 results_page) (page_url 1)) = {listing_a, listing_b} \<and>
   count_list (crawl (answering 200 results_page) (page_url 1)) listing_a = 1 \<and>
   index_of (crawl (answering 200 results_page) (page_url 1)) listing_a <
     index_of (crawl (answering 200 results_page) (page_url 1)) listing_b"
proof -
  let ?env = "answering 200 results_page"
  have a: "get ?env (page_url 1) = Inr \<lparr>status_code = 200, response_text = []\<rparr>"
    "raise_for_status \<lparr>status_code = 200, response_text = []\<rparr> = Inr ()"
    "html_parser ?env (response_text \<lparr>status_code = 200, response_text = []\<rparr>) = Inr results_page"
    by (simp_all add: answering_def raise_for_status_def)
  have l: "listing_urls ?env (page_url 1) results_page = [listing_a, listing_b, listing_a]"
    by (rule results_page_listing_urls) (simp add: answering_def)
  have p: "\<forall>u \<in> set [listing_a, listing_b, listing_a].
      print_out ?env (lit ''Found listing: '' @ u) = None"
    by (simp add: answering_def sample_lines)
  have ne: "listing_a \<noteq> listing_b"
    by (simp add: listing_a_def listing_b_def lit_eq_iff)
  have i: "index_of [listing_a, listing_b, listing_a] listing_a <
      index_of [listing_a, listing_b, listing_a] listing_b"
    using ne by (simp add: index_of_def)
  from crawl_deduplicates_first_seen [OF a] p have
    "distinct (crawl ?env (page_url 1))"
    "set (crawl ?env (page_url 1)) = {listing_a, listing_b}"
    "count_list (crawl ?env (page_url 1)) listing_a = 1"
    "index_of (crawl ?env (page_url 1)) listing_a < index_of (crawl ?env (page_url 1)) listing_b"
    unfolding l using i by auto
  with l show ?thesis by blast
qed

text \<open>
  C3 as stated, for every page, does not hold: the line for a new link is printed inside
  the loop and the \<open>try\<close> block, and when \<open>print\<close> raises the handler ends the loop. On
  the page whose first listing link has a lone surrogate, a console in UTF-8 cannot print
  the line, and listing \<open>a\<close>, linked twice after it, is not returned at all.
\<close>

theorem crawl_unprintable_link_counterexample:
  "get (answering 200 surrogate_page) (page_url 1) =
     Inr \<lparr>status_code = 200, response_text = []\<rparr> \<and>
   listing_urls (answering 200 surrogate_page) (page_url 1) surrogate_page =
     [listing_s, listing_a, listing_a] \<and>
   print_out (answering 200 surrogate_page) (lit ''Found listing: '' @ listing_s) =
     Some UnicodeEncodeError \<and>
   crawl (answering 200 surrogate_page) (page_url 1) = [listing_s] \<and>
   count_list (crawl (answering 200 surrogate_page) (page_url 1)) listing_a = 0"
proof -
  let ?env = "answering 200 surrogate_page"
  have g: "get ?env (page_url 1) = Inr \<lparr>status_code = 200, response_text = []\<rparr>"
    by (simp add: answering_def)
  have l: "listing_urls ?env (page_url 1) surrogate_page = [listing_s, listing_a, listing_a]"
    by (rule surrogate_page_listing_urls)
  have p: "print_out ?env (lit ''Found listing: '' @ listing_s) = Some UnicodeEncodeError"
    by (simp add: answering_def sample_lines)
  have c: "crawl ?env (page_url 1) = [listing_s]"
    by (rule surrogate_page_crawl)
  have "listing_a \<noteq> listing_s"
    by (simp add: listing_a_def listing_s_def lit_def)
  then have n: "count_list (crawl ?env (page_url 1)) listing_a = 0"
    unfolding c by simp
  from g l p c n show ?thesis by blast
qed

text \<open>
  C8, as amended. When the result page is fetched and parsed, every URL that \<open>crawl\<close>
  returns is the result of \<open>urljoin\<close>, applied to the page URL and the \<open>href\<close> of an anchor
  of the page that begins with \<open>/en/furnished-apartment/\<close>: no other \<open>href\<close> is retained.
  When the line for each of these links can be printed, the URLs returned are exactly
  these results. \<open>urljoin\<close> is the URL join of the standard library.
\<close>

theorem crawl_retains_listing_links:
  assumes "get env url = Inr r" and "raise_for_status r = Inr ()"
    and "html_parser env (response_text r) = Inr soup"
  shows
    "set (crawl env url) \<subseteq>
       {urljoin env url href | href.
          href \<in> set (hrefs soup) \<and> startswith href (lit ''/en/furnished-apartment/'')} \<and>
     ((\<forall>href \<in> set (hrefs soup). startswith href (lit ''/en/furnished-apartment/'') \<longrightarrow>
         print_out env (lit ''Found listing: '' @ urljoin env url href) = None) \<longrightarrow>
      set (crawl env url) =
       {urljoin env url href | href.
          href \<in> set (hrefs soup) \<and> startswith href (lit ''/en/furnished-apartment/'')})"
proof -
  have l: "{urljoin env url href | href.
          href \<in> set (hrefs soup) \<and> startswith href (lit ''/en/furnished-apartment/'')} =
      set (listing_urls env url soup)"
    by (auto simp: listing_urls_def)
  have c: "set (crawl env url) = set (reached env (listing_urls env url soup))"
    by (simp add: crawl_reached [OF assms] set_add_new)
  have 1: "set (crawl env url) \<subseteq> set (listing_urls env url soup)"
    unfolding c by (rule set_reached)
  have 2: "set (crawl env url) = set (listing_urls env url soup)"
    if "\<forall>href \<in> set (hrefs soup). startswith href (lit ''/en/furnished-apartment/'') \<longrightarrow>
         print_out env (lit ''Found listing: '' @ urljoin env url href) = None"
  proof -
    from that have "\<forall>u \<in> set (listing_urls env url soup).
        print_out env (lit ''Found listing: '' @ u) = None"
      by (auto simp: listing_urls_def)
    then show ?thesis
      unfolding c by (simp add: reached_all)
  qed
  from 1 2 show ?thesis unfolding l by blast
qed

text \<open>
  The amended C8 on the sample result page: of the four \<open>href\<close> values, \<open>/en/about\<close> is
  dropped and the others are resolved; every line can be printed.
\<close>

theorem crawl_retains_listing_links_witness:
  "hrefs results_page =
     [lit ''/en/furnished-apartment/a'', lit ''/en/about'', lit ''/en/furnished-apartment/b'',
      lit ''/en/furnished-apartment/a''] \<and>
   \<not> startswith (lit ''/en/about'') (lit ''/en/furnished-apartment/'') \<and>
   set (crawl (answering 200 results_page) (page_url 1)) =
     {lit ''https://wunderflats.com/en/furnished-apartment/a'',
      lit ''https://wunderflats.com/en/furnished-apartment/b''}"
proof -
  let ?env = "answering 200 results_page"
  have a: "get ?env (page_url 1) = Inr \<lparr>status_code = 200, response_text = []\<rparr>"
    "raise_for_status \<lparr>status_code = 200, response_text = []\<rparr> = Inr ()"
    "html_parser ?env (response_text \<lparr>status_code = 200, response_text = []\<rparr>) = Inr results_page"
    by (simp_all add: answering_def raise_for_status_def)
  have p: "\<not> startswith (lit ''/en/about'') (lit ''/en/furnished-apartment/'')"
    by (simp add: startswith_def lit_def)
  have l: "listing_urls ?env (page_url 1) results_page = [listing_a, listing_b, listing_a]"
    by (rule results_page_listing_urls) (simp add: answering_def)
  have u: "urljoin ?env (page_url 1) href = lit ''https://wunderflats.com'' @ href" for href
    by (simp add: answering_def)
  have pr: "\<forall>href \<in> set (hrefs results_page).
      startswith href (lit ''/en/furnished-apartment/'') \<longrightarrow>
      print_out ?env (lit ''Found listing: '' @ urljoin ?env (page_url 1) href) = None"
    using sample_lines(1,2) p
    by (auto simp: results_page_hrefs u answering_def listing_a_def listing_b_def
        lit_append [symmetric])
  have "{urljoin ?env (page_url 1) href | href.
        href \<in> set (hrefs results_page) \<and> startswith href (lit ''/en/furnished-apartment/'')} =
     set (listing_urls ?env (page_url 1) results_page)"
    by (auto simp: listing_urls_def)
  also have "\<dots> = {lit ''https://wunderflats.com/en/furnished-apartment/a'',
      lit ''https://wunderflats.com/en/furnished-apartment/b''}"
    unfolding l by (auto simp: listing_a_def listing_b_def)
  finally have "set (crawl ?env (page_url 1)) =
     {lit ''https://wunderflats.com/en/furnished-apartment/a'',
      lit ''https://wunderflats.com/en/furnished-apartment/b''}"
    using crawl_retains_listing_links [OF a] pr by simp
  with results_page_hrefs p show ?thesis by simp
qed

text \<open>
  C8 as stated, for every anchor, does not hold: when the \<open>print\<close> of a new link raises, the
  loop ends and the anchors after it are not looked at. On the page whose first listing
  link has a lone surrogate, the \<open>href\<close> of listing \<open>a\<close> begins with the prefix and its
  URL is not returned.
\<close>

theorem crawl_link_not_retained_counterexample:
  "get (answering 200 surrogate_page) (page_url 1) =
     Inr \<lparr>status_code = 200, response_text = []\<rparr> \<and>
   lit ''/en/furnished-apartment/a'' \<in> set (hrefs surrogate_page) \<and>
   startswith (lit ''/en/furnished-apartment/a'') (lit ''/en/furnished-apartment/'') \<and>
   urljoin (answering 200 surrogate_page) (page_url 1) (lit ''/en/furnished-apartment/a'') =
     listing_a \<and>
   listing_a \<notin> set (crawl (answering 200 surrogate_page) (page_url 1))"
proof -
  let ?env = "answering 200 surrogate_page"
  have g: "get ?env (page_url 1) = Inr \<lparr>status_code = 200, response_text = []\<rparr>"
    by (simp add: answering_def)
  have h: "lit ''/en/furnished-apartment/a'' \<in> set (hrefs surrogate_page)"
    by (simp add: surrogate_page_hrefs)
  have s: "startswith (lit ''/en/furnished-apartment/a'') (lit ''/en/furnished-apartment/'')"
    by (simp add: startswith_def lit_def)
  have u: "urljoin ?env (page_url 1) (lit ''/en/furnished-apartment/a'') = listing_a"
    by (simp add: answering_def listing_a_def lit_append [symmetric])
  have "listing_a \<noteq> listing_s"
    by (simp add: listing_a_def listing_s_def lit_def)
  then have n: "listing_a \<notin> set (crawl ?env (page_url 1))"
    unfolding surrogate_page_crawl by simp
  from g h s u n show ?thesis by blast
qed

text \<open>
  C9, as amended. When the request for a page URL raises an exception (a time-out, a
  connection error), or is answered with a client-error or server-error status (\<open>400\<close> to
  \<open>599\<close>), \<open>crawl\<close> returns the empty list. The result is a list, so the error does not
  reach the caller; and when the URL is that of a result page, the driver loop ends at this
  page with the records it had.
\<close>

theorem crawl_empty_on_failed_fetch:
  assumes "(\<exists>e. get env url = Inl e) \<or>
     (\<exists>r. get env url = Inr r \<and> 400 \<le> status_code r \<and> status_code r < 600)"
  shows "crawl env url = [] \<and>
     (url = page_url page_number \<longrightarrow>
      page_loop env page_number all_apartment_details = Some (page_number, all_apartment_details))"
proof -
  have c: "crawl env url = []"
    using assms by (auto simp: crawl_def crawl_try_def raise_for_status_def)
  then show ?thesis
    by (auto simp: page_loop.simps [of env page_number])
qed

text \<open>
  The amended C9 on a site where every request times out, and on a site that answers
  \<open>404\<close> with the sample result page as body.
\<close>

theorem crawl_empty_on_failed_fetch_witness:
  "crawl timing_out (page_url 1) = [] \<and>
   page_loop timing_out 1 [] = Some (1, []) \<and>
   crawl (answering 404 results_page) (page_url 1) = [] \<and>
   page_loop (answering 404 results_page) 1 [] = Some (1, [])"
proof -
  have "\<exists>e. get timing_out (page_url 1) = Inl e"
    by (simp add: timing_out_def)
  moreover have "\<exists>r. get (answering 404 results_page) (page_url 1) = Inr r \<and>
       400 \<le> status_code r \<and> status_code r < 600"
    by (simp add: answering_def)
  ultimately show ?thesis
    using crawl_empty_on_failed_fetch [of timing_out "page_url 1" 1 "[]"]
      crawl_empty_on_failed_fetch [of "answering 404 results_page" "page_url 1" 1 "[]"]
    by blast
qed

text \<open>
  C9 as stated, for every status outside \<open>200\<close> to \<open>299\<close>, does not hold: a \<open>300\<close> answer
  whose body is the sample result page is parsed, and \<open>crawl\<close> returns its two links.
\<close>

theorem crawl_status_300_counterexample:
  "get (answering 300 results_page) (page_url 1) =
     Inr \<lparr>status_code = 300, response_text = []\<rparr> \<and>
   \<not> (200 \<le> (300::nat) \<and> (300::nat) < 300) \<and>
   crawl (answering 300 results_page) (page_url 1) = [listing_a, listing_b] \<and>
   crawl (answering 300 results_page) (page_url 1) \<noteq> []"
proof -
  have g: "get (answering 300 results_page) (page_url 1) =
     Inr \<lparr>status_code = 300, response_text = []\<rparr>"
    by (simp add: answering_def)
  then have "crawl (answering 300 results_page) (page_url 1) = [listing_a, listing_b]"
    by (rule results_page_crawl) (simp_all add: answering_def raise_for_status_def)
  with g show ?thesis by simp
qed

section \<open>The driver\<close>






end
